theory Spec2Isabelle
  imports Complex_Main "HOL-Library.Char_ord" "HOL-Library.List_Lexorder"
begin

section \<open>Python values and effects\<close>

text \<open>
  The exceptions that the modelled code paths raise: \<open>OSError\<close> from \<open>open\<close>,
  \<open>ValueError\<close>, \<open>IndexError\<close> and \<open>NotFittedError\<close> from scikit-learn and numpy.
\<close>

datatype exn = OSError | ValueError | IndexError | NotFittedError

text \<open>
  The file system as \<open>src/train.py\<close> sees it: which paths \<open>open(path, "w")\<close> accepts
  (the directory exists, the process may write there) and the text held by every file.
  A file is named by its path string: two spellings of one file (\<open>a/../b\<close> and \<open>b\<close>) are
  two names here.
\<close>

record filesystem =
  writable :: "string \<Rightarrow> bool"
  files :: "string \<rightharpoonup> string"

text \<open>\<open>open(path, "w")\<close>: raises, or creates the file, truncating what it held.\<close>

definition py_open_w :: "filesystem \<Rightarrow> string \<Rightarrow> exn + filesystem" where
  "py_open_w fs path =
     (if writable fs path then Inr (fs\<lparr>files := (files fs)(path \<mapsto> [])\<rparr>) else Inl OSError)"

text \<open>
  \<open>f.write(s)\<close> on the handle opened at \<open>path\<close>: the text is appended. The handle is
  closed by the \<open>with\<close> statement on every exit, also when an exception passes through it,
  so all text written before is in the file afterwards.
\<close>

definition f_write :: "filesystem \<Rightarrow> string \<Rightarrow> string \<Rightarrow> filesystem" where
  "f_write fs path s =
     fs\<lparr>files := (files fs)(path \<mapsto> (case files fs path of None \<Rightarrow> s | Some c \<Rightarrow> c @ s))\<rparr>"

text \<open>
  A Python loop that computes one result per item: the results in order, or the first
  exception raised, which ends the loop.
\<close>

fun collect :: "(exn + 'a) list \<Rightarrow> exn + 'a list" where
  "collect [] = Inr []"
| "collect (Inl e # rs) = Inl e"
| "collect (Inr x # rs) = (case collect rs of Inl e \<Rightarrow> Inl e | Inr xs \<Rightarrow> Inr (x # xs))"

section \<open>The metric functions imported from \<open>sklearn.metrics\<close>\<close>

text \<open>
  \<open>train.py\<close> imports \<open>accuracy_score\<close>, \<open>f1_score\<close>, \<open>average_precision_score\<close> and
  \<open>roc_auc_score\<close>. They are library code, so the program is modelled over any
  implementation of them: a function from the arguments of the call (the keyword argument
  as the string that the source passes) to the exception raised or the value returned.
  \<open>'y\<close> is the type of the true label matrix, \<open>'m\<close> the type of a prediction matrix
  (hard labels and decision scores are both arrays), \<open>'v\<close> the type of a metric value.
\<close>

record ('y, 'm, 'v) metrics =
  accuracy_score :: "'y \<Rightarrow> 'm \<Rightarrow> exn + 'v"
  f1_score :: "'y \<Rightarrow> 'm \<Rightarrow> string \<Rightarrow> exn + 'v"
  average_precision_score :: "'y \<Rightarrow> 'm \<Rightarrow> string \<Rightarrow> exn + 'v"
  roc_auc_score :: "'y \<Rightarrow> 'm \<Rightarrow> string \<Rightarrow> exn + 'v"

section \<open>\<open>write_evaluation_scores\<close>\<close>

text \<open>
  \<open>write_evaluation_scores(f_name, y_val, pred_labels, pred_scores)\<close>, lines 34 to 58.
  \<open>py_str\<close> is what \<open>"{}".format\<close> makes of a metric value. The result is the exception
  that leaves the function (\<open>None\<close> when it returns) and the file system it leaves behind.
  Each argument of \<open>f.write\<close> is evaluated before the write, so a metric that raises
  writes nothing of its own line.
\<close>

definition write_evaluation_scores ::
  "('y, 'm, 'v) metrics \<Rightarrow> ('v \<Rightarrow> string) \<Rightarrow> filesystem \<Rightarrow> string \<Rightarrow> 'y \<Rightarrow> 'm \<Rightarrow> 'm
     \<Rightarrow> exn option \<times> filesystem" where
  "write_evaluation_scores sk py_str fs f_name y_val pred_labels pred_scores =
     (let path = ''output/'' @ f_name in
      case py_open_w fs path of
        Inl e \<Rightarrow> (Some e, fs)
      | Inr fs0 \<Rightarrow>
          (case accuracy_score sk y_val pred_labels of
             Inl e \<Rightarrow> (Some e, fs0)
           | Inr a \<Rightarrow>
               (let fs1 = f_write fs0 path (''Accuracy score: '' @ py_str a @ ''\<newline>'') in
                case f1_score sk y_val pred_labels ''weighted'' of
                  Inl e \<Rightarrow> (Some e, fs1)
                | Inr f \<Rightarrow>
                    (let fs2 = f_write fs1 path (''F1 score: '' @ py_str f @ ''\<newline>'') in
                     case average_precision_score sk y_val pred_labels ''macro'' of
                       Inl e \<Rightarrow> (Some e, fs2)
                     | Inr p \<Rightarrow>
                         (let fs3 = f_write fs2 path
                                      (''Average precision score: '' @ py_str p @ ''\<newline>'') in
                          case roc_auc_score sk y_val pred_scores ''ovo'' of
                            Inl e \<Rightarrow> (Some e, fs3)
                          | Inr r \<Rightarrow>
                              (None, f_write fs3 path
                                       (''ROC AUC score: '' @ py_str r @ ''\<newline>'')))))))"

section \<open>The metrics of scikit-learn on indicator matrices\<close>

text \<open>
  A two-dimensional numeric array, as a list of rows. Integer entries (the 0 and 1 of an
  indicator matrix) are embedded in the rationals, as numpy compares \<open>1\<close> and \<open>1.0\<close>
  equal; floating-point rounding is not modelled. An array is rectangular.
\<close>

type_synonym ndarray = "rat list list"

definition columns :: "'a list list \<Rightarrow> 'a list list" where
  "columns M = (case M of [] \<Rightarrow> [] | r # _ \<Rightarrow> map (\<lambda>j. map (\<lambda>row. row ! j) M) [0..<length r])"

definition same_shape :: "ndarray \<Rightarrow> ndarray \<Rightarrow> bool" where
  "same_shape a b = (map length a = map length b)"

text \<open>A metric value: a float, or the \<open>nan\<close> that numpy yields for \<open>0/0\<close>.\<close>

datatype pyfloat = Float rat | NaN

definition np_mean :: "rat list \<Rightarrow> pyfloat" where
  "np_mean xs = (if xs = [] then NaN else Float (sum_list xs / of_nat (length xs)))"

text \<open>
  Modelled from the spec: \<open>accuracy_score\<close> is scikit-learn's and not part of the sources.
  Section 4.4 of the specification: the fraction of examples where the entire predicted
  label row equals the entire true label row. Arrays of different shapes are refused
  (\<open>ValueError\<close>); the fraction of zero rows is \<open>nan\<close>.
\<close>

definition sklearn_accuracy_score :: "ndarray \<Rightarrow> ndarray \<Rightarrow> exn + pyfloat" where
  "sklearn_accuracy_score y_true y_pred =
     (if \<not> same_shape y_true y_pred then Inl ValueError
      else if y_true = [] then Inr NaN
      else Inr (Float (of_nat (length (filter (\<lambda>(t, p). t = p) (zip y_true y_pred)))
                        / of_nat (length y_true))))"

text \<open>
  The other three metrics are library code as well. They are modelled as scikit-learn
  documents them for a label indicator matrix \<open>y_true\<close>, in the one mode that
  \<open>write_evaluation_scores\<close> asks for, so that the worked examples below are runs of the
  program on real values.

  \<open>f1_score(y_true, y_pred, average="weighted")\<close>: the F1 of each label,
  \<open>2 tp / (2 tp + fp + fn)\<close> and 0 when that is \<open>0/0\<close>, averaged with the number of
  positive examples of the label as its weight; 0 when no label has a positive example.
\<close>

definition binary_f1 :: "rat list \<Rightarrow> rat list \<Rightarrow> rat" where
  "binary_f1 y_true y_pred =
     (let tp = length (filter (\<lambda>(t, p). t = 1 \<and> p = 1) (zip y_true y_pred));
          fp = length (filter (\<lambda>(t, p). t \<noteq> 1 \<and> p = 1) (zip y_true y_pred));
          fn = length (filter (\<lambda>(t, p). t = 1 \<and> p \<noteq> 1) (zip y_true y_pred))
      in if 2 * tp + fp + fn = 0 then 0 else of_nat (2 * tp) / of_nat (2 * tp + fp + fn))"

definition weighted_f1 :: "ndarray \<Rightarrow> ndarray \<Rightarrow> exn + pyfloat" where
  "weighted_f1 y_true y_pred =
     (if \<not> same_shape y_true y_pred then Inl ValueError
      else (let cols = zip (columns y_true) (columns y_pred);
                support = map (\<lambda>(t, p). of_nat (length (filter (\<lambda>v. v = 1) t))) cols;
                f1s = map (\<lambda>(t, p). binary_f1 t p) cols
            in if sum_list support = 0 then Inr (Float 0)
               else Inr (Float (sum_list (map (\<lambda>(w, f). w * f) (zip support f1s))
                                / sum_list support))))"

text \<open>
  Average precision of one label: \<open>AP = \<Sum>\<^sub>n (R\<^sub>n - R\<^sub>n\<^sub>-\<^sub>1) P\<^sub>n\<close>, with precision \<open>P\<^sub>n\<close> and
  recall \<open>R\<^sub>n\<close> at the \<open>n\<close>-th threshold, the thresholds being the distinct scores from the
  highest down. An example counts as predicted positive at threshold \<open>\<tau>\<close> when its score
  is at least \<open>\<tau>\<close>. The recall of a label with no positive example is \<open>0/0\<close>; the sum is 0
  for such a label here, and no worked example has one.
\<close>

definition binary_average_precision :: "rat list \<Rightarrow> rat list \<Rightarrow> rat" where
  "binary_average_precision y_true y_score =
     (let thresholds = rev (sort (remdups y_score));
          npos = length (filter (\<lambda>t. t = 1) y_true);
          tp = (\<lambda>\<tau>. length (filter (\<lambda>(t, s). t = 1 \<and> \<tau> \<le> s) (zip y_true y_score)));
          pp = (\<lambda>\<tau>. length (filter (\<lambda>(t, s). \<tau> \<le> s) (zip y_true y_score)));
          recall = (\<lambda>\<tau>. of_nat (tp \<tau>) / of_nat npos);
          precision = (\<lambda>\<tau>. of_nat (tp \<tau>) / of_nat (pp \<tau>))
      in sum_list (map (\<lambda>(prev, \<tau>). (recall \<tau> - prev) * precision \<tau>)
                       (zip (0 # map recall thresholds) thresholds)))"

text \<open>
  scikit-learn's averaging of a per-label metric over an indicator matrix, with
  \<open>average="macro"\<close>. The two arrays must have the same number of rows, at least one, and
  at least one column (\<open>ValueError\<close> otherwise). There is one score per column of
  \<open>y_score\<close>, computed from that column and the column of \<open>y_true\<close> at the same index;
  numpy raises \<open>IndexError\<close> when \<open>y_true\<close> has no such column, and further columns of
  \<open>y_true\<close> are not looked at. The result is the unweighted mean of the scores.
\<close>

definition average_binary_score ::
  "(rat list \<Rightarrow> rat list \<Rightarrow> exn + rat) \<Rightarrow> ndarray \<Rightarrow> ndarray \<Rightarrow> exn + pyfloat" where
  "average_binary_score binary_metric y_true y_score =
     (if length y_true \<noteq> length y_score \<or> columns y_true = [] \<or> columns y_score = []
      then Inl ValueError
      else (case collect (map (\<lambda>c. if c < length (columns y_true)
                                    then binary_metric (columns y_true ! c) (columns y_score ! c)
                                    else Inl IndexError)
                              [0..<length (columns y_score)]) of
              Inl e \<Rightarrow> Inl e
            | Inr scores \<Rightarrow> Inr (np_mean scores)))"

text \<open>
  \<open>average_precision_score(y_true, y_score, average="macro")\<close>: the unweighted mean over
  the label columns of the average precision of each.
\<close>

definition macro_average_precision :: "ndarray \<Rightarrow> ndarray \<Rightarrow> exn + pyfloat" where
  "macro_average_precision y_true y_score =
     average_binary_score (\<lambda>t s. Inr (binary_average_precision t s)) y_true y_score"

text \<open>
  ROC AUC of one label: the probability that a positive example of the label has a higher
  score than a negative one, a tie counting one half (the area under the ROC curve). A
  label whose column holds a single class has none: scikit-learn raises \<open>ValueError\<close>.
\<close>

definition binary_roc_auc :: "rat list \<Rightarrow> rat list \<Rightarrow> exn + rat" where
  "binary_roc_auc y_true y_score =
     (let pos = map snd (filter (\<lambda>(t, s). t = 1) (zip y_true y_score));
          neg = map snd (filter (\<lambda>(t, s). t \<noteq> 1) (zip y_true y_score))
      in if pos = [] \<or> neg = [] then Inl ValueError
         else Inr (sum_list (map (\<lambda>p. sum_list (map (\<lambda>n. if n < p then 1
                                                        else if n = p then 1/2 else 0) neg)) pos)
                   / of_nat (length pos * length neg)))"

text \<open>
  \<open>roc_auc_score(y_true, y_score, multi_class="ovo")\<close> on an indicator matrix. The library
  uses \<open>multi_class\<close> for multiclass targets only (a vector with one class per example);
  on an indicator matrix it computes the ROC AUC of each label column and averages them
  unweighted (\<open>average="macro"\<close>, the default).
\<close>

definition macro_roc_auc :: "ndarray \<Rightarrow> ndarray \<Rightarrow> exn + pyfloat" where
  "macro_roc_auc y_true y_score = average_binary_score binary_roc_auc y_true y_score"

text \<open>The four metrics as \<open>train.py\<close> imports them.\<close>

definition sklearn_metrics :: "(ndarray, ndarray, pyfloat) metrics" where
  "sklearn_metrics =
     \<lparr>accuracy_score = sklearn_accuracy_score,
      f1_score = (\<lambda>y p average. weighted_f1 y p),
      average_precision_score = (\<lambda>y s average. macro_average_precision y s),
      roc_auc_score = (\<lambda>y s multi_class. macro_roc_auc y s)\<rparr>"

text \<open>
  The metric that section 4.4 of the specification describes as the fourth, in the
  specification's words: a multi-class AUC by one-vs-one pairwise comparison among labels,
  averaged across all label pairs. For the pair of labels \<open>a\<close> and \<open>b\<close>, the examples that
  carry \<open>a\<close> are ranked by the score of \<open>a\<close> against the examples that carry \<open>b\<close> and not
  \<open>a\<close>, and the same with \<open>a\<close> and \<open>b\<close> exchanged; the pair counts with the mean of the two.
\<close>

definition spec_pair_auc :: "ndarray \<Rightarrow> ndarray \<Rightarrow> nat \<Rightarrow> nat \<Rightarrow> exn + rat" where
  "spec_pair_auc y_true y_score a b =
     (let rows = zip y_true y_score;
          pos = map (\<lambda>(t, s). s ! a) (filter (\<lambda>(t, s). t ! a = 1) rows);
          neg = map (\<lambda>(t, s). s ! a) (filter (\<lambda>(t, s). t ! a \<noteq> 1 \<and> t ! b = 1) rows)
      in if pos = [] \<or> neg = [] then Inl ValueError
         else Inr (sum_list (map (\<lambda>p. sum_list (map (\<lambda>n. if n < p then 1
                                                        else if n = p then 1/2 else 0) neg)) pos)
                   / of_nat (length pos * length neg)))"

definition spec_pairwise_roc_auc :: "ndarray \<Rightarrow> ndarray \<Rightarrow> exn + pyfloat" where
  "spec_pairwise_roc_auc y_true y_score =
     (let n = length (columns y_true);
          pairs = concat (map (\<lambda>a. map (\<lambda>b. (a, b)) [Suc a..<n]) [0..<n])
      in case collect (map (\<lambda>(a, b).
                 case spec_pair_auc y_true y_score a b of
                   Inl e \<Rightarrow> Inl e
                 | Inr ab \<Rightarrow> (case spec_pair_auc y_true y_score b a of
                                Inl e \<Rightarrow> Inl e
                              | Inr ba \<Rightarrow> Inr ((ab + ba) / 2))) pairs) of
           Inl e \<Rightarrow> Inl e
         | Inr vs \<Rightarrow> Inr (np_mean vs))"

text \<open>
  Python's \<open>str\<close> of the floats that occur in the worked examples, \<open>0.0\<close>, \<open>0.5\<close>, \<open>1.0\<close>
  and \<open>nan\<close>; any other float is shown as a question mark.
\<close>

fun example_str :: "pyfloat \<Rightarrow> string" where
  "example_str NaN = ''nan''"
| "example_str (Float q) =
     (if q = 0 then ''0.0'' else if q = 1/2 then ''0.5'' else if q = 1 then ''1.0'' else ''?'')"

text \<open>A file system with an \<open>output\<close> directory and no file in it.\<close>

definition example_fs :: filesystem where
  "example_fs = \<lparr>writable = (\<lambda>p. take 7 p = ''output/''), files = Map.empty\<rparr>"

section \<open>The label binarizer\<close>

text \<open>
  scikit-learn's \<open>MultiLabelBinarizer\<close>, library code that \<open>main\<close> calls, modelled as the
  library documents it. The object holds the constructor argument \<open>classes\<close> (\<open>None\<close> when
  not given) and, once fitted, the attribute \<open>classes_\<close> (the field
  \<open>fitted_classes\<close>, \<open>None\<close> before the first fit).
  \<^item> \<open>fit(y)\<close>: without \<open>classes\<close> the vocabulary is inferred from \<open>y\<close>,
    \<open>sorted(set(chain(y)))\<close>; with \<open>classes\<close> it is that list in its order, and a list with
    duplicates is refused with \<open>ValueError\<close>.
  \<^item> \<open>transform(y)\<close>: one row per label set, column \<open>i\<close> being 1 when \<open>classes_[i]\<close> is in
    the label set and 0 otherwise. A label that is not in \<open>classes_\<close> sets no column: the
    library warns "unknown class(es) ... will be ignored" and goes on.
  \<^item> \<open>fit_transform(y)\<close> is \<open>fit(y).transform(y)\<close>.
\<close>

record 'l MultiLabelBinarizer =
  classes :: "'l list option"
  fitted_classes :: "'l list option"

definition mlb_fit ::
  "('l::linorder) MultiLabelBinarizer \<Rightarrow> 'l list list \<Rightarrow> exn + 'l MultiLabelBinarizer" where
  "mlb_fit mlb y =
     (case classes mlb of
        None \<Rightarrow> Inr (mlb\<lparr>fitted_classes := Some (sort (remdups (concat y)))\<rparr>)
      | Some cs \<Rightarrow>
          (if length (remdups cs) < length cs then Inl ValueError
           else Inr (mlb\<lparr>fitted_classes := Some cs\<rparr>)))"

definition mlb_transform :: "'l MultiLabelBinarizer \<Rightarrow> 'l list list \<Rightarrow> exn + ndarray" where
  "mlb_transform mlb y =
     (case fitted_classes mlb of
        None \<Rightarrow> Inl NotFittedError
      | Some cs \<Rightarrow> Inr (map (\<lambda>labels. map (\<lambda>c. if c \<in> set labels then 1 else 0) cs) y))"

definition mlb_fit_transform ::
  "('l::linorder) MultiLabelBinarizer \<Rightarrow> 'l list list
     \<Rightarrow> exn + (ndarray \<times> 'l MultiLabelBinarizer)" where
  "mlb_fit_transform mlb y =
     (case mlb_fit mlb y of
        Inl e \<Rightarrow> Inl e
      | Inr mlb' \<Rightarrow> (case mlb_transform mlb' y of Inl e \<Rightarrow> Inl e | Inr yt \<Rightarrow> Inr (yt, mlb')))"

text \<open>
  Lines 67 to 69 of \<open>main\<close>: one binarizer is built on \<open>sorted(sorted_tags)\<close> and applied
  to the train label sets, then to the validation label sets. The result is the two
  indicator matrices and the binarizer as the two calls leave it.
\<close>

definition main_binarize ::
  "('l::linorder) list \<Rightarrow> 'l list list \<Rightarrow> 'l list list
     \<Rightarrow> exn + (ndarray \<times> ndarray \<times> 'l MultiLabelBinarizer)" where
  "main_binarize sorted_tags y_train y_val =
     (let mlb = \<lparr>classes = Some (sort sorted_tags), fitted_classes = None\<rparr> in
      case mlb_fit_transform mlb y_train of
        Inl e \<Rightarrow> Inl e
      | Inr (y_train', mlb1) \<Rightarrow>
          (case mlb_fit_transform mlb1 y_val of
             Inl e \<Rightarrow> Inl e
           | Inr (y_val', mlb2) \<Rightarrow> Inr (y_train', y_val', mlb2)))"

section \<open>Training\<close>

text \<open>
  The constructor arguments of \<open>LogisticRegression\<close> that line 27 sets: \<open>penalty\<close>,
  \<open>C\<close>, \<open>dual\<close> and \<open>solver\<close>.
\<close>

record LogisticRegression =
  lr_penalty :: string
  lr_C :: rat
  lr_dual :: bool
  lr_solver :: string

text \<open>
  The classifier library, for any implementation of it. \<open>fit_binary\<close> is the per-label fit
  of scikit-learn: from the template estimator, the features and one label column it
  yields the estimator of that label, a fitted copy of the template (the library puts a
  constant predictor in its place when the column holds a single value). \<open>predict\<close> and
  \<open>decision_function\<close> apply a fitted ensemble to a feature matrix.
\<close>

record ('x, 'c) classifier_lib =
  fit_binary :: "LogisticRegression \<Rightarrow> 'x \<Rightarrow> rat list \<Rightarrow> exn + 'c"
  predict :: "'c list \<Rightarrow> 'x \<Rightarrow> exn + ndarray"
  decision_function :: "'c list \<Rightarrow> 'x \<Rightarrow> exn + ndarray"

text \<open>
  scikit-learn's \<open>OneVsRestClassifier(estimator).fit(X, Y)\<close> on an indicator matrix, as
  the library documents it: one estimator per label column, each a copy of the template
  fitted on \<open>X\<close> and that column. The fitted object is the list \<open>estimators_\<close>.
\<close>

definition ovr_fit ::
  "('x, 'c) classifier_lib \<Rightarrow> LogisticRegression \<Rightarrow> 'x \<Rightarrow> ndarray \<Rightarrow> exn + 'c list" where
  "ovr_fit lib estimator X Y = collect (map (fit_binary lib estimator X) (columns Y))"

text \<open>\<open>train_classifier(X_train, y_train, penalty, C)\<close>, lines 15 to 31.\<close>

definition train_classifier ::
  "('x, 'c) classifier_lib \<Rightarrow> 'x \<Rightarrow> ndarray \<Rightarrow> string \<Rightarrow> rat \<Rightarrow> exn + 'c list" where
  "train_classifier lib X_train y_train penalty C =
     (let clf = \<lparr>lr_penalty = penalty, lr_C = C, lr_dual = False, lr_solver = ''liblinear''\<rparr>
      in ovr_fit lib clf X_train y_train)"

section \<open>\<open>main\<close>\<close>

text \<open>\<open>joblib.dump(obj, path)\<close>, given the bytes that pickling \<open>obj\<close> yields.\<close>

definition joblib_dump :: "filesystem \<Rightarrow> string \<Rightarrow> string \<Rightarrow> exn + filesystem" where
  "joblib_dump fs path bytes =
     (case py_open_w fs path of Inl e \<Rightarrow> Inl e | Inr fs' \<Rightarrow> Inr (f_write fs' path bytes))"

text \<open>
  \<open>main()\<close>, lines 61 to 87, from the values that the three \<open>joblib.load\<close> calls return:
  the train and validation features and label sets, and the tags.
\<close>

definition main ::
  "('x, 'c) classifier_lib \<Rightarrow> (ndarray, ndarray, 'v) metrics \<Rightarrow> ('v \<Rightarrow> string)
     \<Rightarrow> ('c list \<Rightarrow> string) \<Rightarrow> (('l::linorder) MultiLabelBinarizer \<Rightarrow> string)
     \<Rightarrow> filesystem \<Rightarrow> 'x \<Rightarrow> 'l list list \<Rightarrow> 'x \<Rightarrow> 'l list list \<Rightarrow> 'l list
     \<Rightarrow> exn option \<times> filesystem" where
  "main lib sk py_str pickle_clf pickle_mlb fs X_train_tfidf y_train X_val_tfidf y_val sorted_tags =
     (case main_binarize sorted_tags y_train y_val of
        Inl e \<Rightarrow> (Some e, fs)
      | Inr (y_train', y_val', mlb) \<Rightarrow>
     (case train_classifier lib X_train_tfidf y_train' ''l2'' 10 of
        Inl e \<Rightarrow> (Some e, fs)
      | Inr classifier_tfidf \<Rightarrow>
     (case predict lib classifier_tfidf X_val_tfidf of
        Inl e \<Rightarrow> (Some e, fs)
      | Inr y_val_predicted_labels_tfidf \<Rightarrow>
     (case decision_function lib classifier_tfidf X_val_tfidf of
        Inl e \<Rightarrow> (Some e, fs)
      | Inr y_val_predicted_scores_tfidf \<Rightarrow>
     (case write_evaluation_scores sk py_str fs ''stats.txt'' y_val'
             y_val_predicted_labels_tfidf y_val_predicted_scores_tfidf of
        (Some e, fs1) \<Rightarrow> (Some e, fs1)
      | (None, fs1) \<Rightarrow>
     (case joblib_dump fs1 ''output/model_tfidf.joblib'' (pickle_clf classifier_tfidf) of
        Inl e \<Rightarrow> (Some e, fs1)
      | Inr fs2 \<Rightarrow>
     (case joblib_dump fs2 ''output/mlb.joblib'' (pickle_mlb mlb) of
        Inl e \<Rightarrow> (Some e, fs2)
      | Inr fs3 \<Rightarrow> (None, fs3))))))))"

section \<open>Loops and shapes\<close>

lemma collect_Inr:
  "collect rs = Inr xs \<Longrightarrow> length xs = length rs \<and> (\<forall>j<length rs. rs ! j = Inr (xs ! j))"
proof (induction rs arbitrary: xs rule: collect.induct)
  case 1
  then show ?case by simp
next
  case (2 e rs)
  then show ?case by simp
next
  case (3 x rs)
  from "3.prems" obtain ys where c: "collect rs = Inr ys" and xs: "xs = x # ys"
    by (auto split: sum.splits)
  from "3.IH" [OF c] have "length ys = length rs" and n: "\<forall>j<length rs. rs ! j = Inr (ys ! j)"
    by simp_all
  with xs show ?case
    by (auto simp add: nth_Cons split: nat.splits)
qed

lemma same_shape_length: "same_shape a b \<Longrightarrow> length a = length b"
  unfolding same_shape_def by (rule map_eq_imp_length_eq)

section \<open>Outcomes of \<open>write_evaluation_scores\<close>\<close>

text \<open>
  One lemma per exit of the function: \<open>open\<close> raises, one of the four metrics raises, or
  the function returns. In each the file system left behind is given in full.
\<close>

lemma wes_open_fails:
  "\<not> writable fs (''output/'' @ f_name) \<Longrightarrow>
   write_evaluation_scores sk py_str fs f_name y_val pred_labels pred_scores = (Some OSError, fs)"
  by (simp add: write_evaluation_scores_def py_open_w_def)

lemma wes_accuracy_raises:
  "writable fs (''output/'' @ f_name) \<Longrightarrow> accuracy_score sk y_val pred_labels = Inl e \<Longrightarrow>
   write_evaluation_scores sk py_str fs f_name y_val pred_labels pred_scores =
     (Some e, fs\<lparr>files := (files fs)(''output/'' @ f_name \<mapsto> [])\<rparr>)"
  by (simp add: write_evaluation_scores_def py_open_w_def)

lemma wes_f1_raises:
  "writable fs (''output/'' @ f_name) \<Longrightarrow> accuracy_score sk y_val pred_labels = Inr a \<Longrightarrow>
   f1_score sk y_val pred_labels ''weighted'' = Inl e \<Longrightarrow>
   write_evaluation_scores sk py_str fs f_name y_val pred_labels pred_scores =
     (Some e, fs\<lparr>files := (files fs)(''output/'' @ f_name \<mapsto>
        ''Accuracy score: '' @ py_str a @ ''\<newline>'')\<rparr>)"
  by (simp add: write_evaluation_scores_def py_open_w_def f_write_def)

lemma wes_average_precision_raises:
  "writable fs (''output/'' @ f_name) \<Longrightarrow> accuracy_score sk y_val pred_labels = Inr a \<Longrightarrow>
   f1_score sk y_val pred_labels ''weighted'' = Inr b \<Longrightarrow>
   average_precision_score sk y_val pred_labels ''macro'' = Inl e \<Longrightarrow>
   write_evaluation_scores sk py_str fs f_name y_val pred_labels pred_scores =
     (Some e, fs\<lparr>files := (files fs)(''output/'' @ f_name \<mapsto>
        ''Accuracy score: '' @ py_str a @ ''\<newline>'' @
        ''F1 score: '' @ py_str b @ ''\<newline>'')\<rparr>)"
  by (simp add: write_evaluation_scores_def py_open_w_def f_write_def)

lemma wes_roc_auc_raises:
  "writable fs (''output/'' @ f_name) \<Longrightarrow> accuracy_score sk y_val pred_labels = Inr a \<Longrightarrow>
   f1_score sk y_val pred_labels ''weighted'' = Inr b \<Longrightarrow>
   average_precision_score sk y_val pred_labels ''macro'' = Inr c \<Longrightarrow>
   roc_auc_score sk y_val pred_scores ''ovo'' = Inl e \<Longrightarrow>
   write_evaluation_scores sk py_str fs f_name y_val pred_labels pred_scores =
     (Some e, fs\<lparr>files := (files fs)(''output/'' @ f_name \<mapsto>
        ''Accuracy score: '' @ py_str a @ ''\<newline>'' @
        ''F1 score: '' @ py_str b @ ''\<newline>'' @
        ''Average precision score: '' @ py_str c @ ''\<newline>'')\<rparr>)"
  by (simp add: write_evaluation_scores_def py_open_w_def f_write_def)

lemma wes_returns:
  "writable fs (''output/'' @ f_name) \<Longrightarrow> accuracy_score sk y_val pred_labels = Inr a \<Longrightarrow>
   f1_score sk y_val pred_labels ''weighted'' = Inr b \<Longrightarrow>
   average_precision_score sk y_val pred_labels ''macro'' = Inr c \<Longrightarrow>
   roc_auc_score sk y_val pred_scores ''ovo'' = Inr d \<Longrightarrow>
   write_evaluation_scores sk py_str fs f_name y_val pred_labels pred_scores =
     (None, fs\<lparr>files := (files fs)(''output/'' @ f_name \<mapsto>
        ''Accuracy score: '' @ py_str a @ ''\<newline>'' @
        ''F1 score: '' @ py_str b @ ''\<newline>'' @
        ''Average precision score: '' @ py_str c @ ''\<newline>'' @
        ''ROC AUC score: '' @ py_str d @ ''\<newline>'')\<rparr>)"
  by (simp add: write_evaluation_scores_def py_open_w_def f_write_def)

text \<open>The six exits cover every run.\<close>

lemma wes_outcomes:
  "(\<not> writable fs (''output/'' @ f_name) \<and>
      write_evaluation_scores sk py_str fs f_name y_val pred_labels pred_scores = (Some OSError, fs))
   \<or> (\<exists>e. accuracy_score sk y_val pred_labels = Inl e \<and>
      write_evaluation_scores sk py_str fs f_name y_val pred_labels pred_scores =
        (Some e, fs\<lparr>files := (files fs)(''output/'' @ f_name \<mapsto> [])\<rparr>))
   \<or> (\<exists>a e. accuracy_score sk y_val pred_labels = Inr a \<and>
      f1_score sk y_val pred_labels ''weighted'' = Inl e \<and>
      write_evaluation_scores sk py_str fs f_name y_val pred_labels pred_scores =
        (Some e, fs\<lparr>files := (files fs)(''output/'' @ f_name \<mapsto>
           ''Accuracy score: '' @ py_str a @ ''\<newline>'')\<rparr>))
   \<or> (\<exists>a b e. accuracy_score sk y_val pred_labels = Inr a \<and>
      f1_score sk y_val pred_labels ''weighted'' = Inr b \<and>
      average_precision_score sk y_val pred_labels ''macro'' = Inl e \<and>
      write_evaluation_scores sk py_str fs f_name y_val pred_labels pred_scores =
        (Some e, fs\<lparr>files := (files fs)(''output/'' @ f_name \<mapsto>
           ''Accuracy score: '' @ py_str a @ ''\<newline>'' @
           ''F1 score: '' @ py_str b @ ''\<newline>'')\<rparr>))
   \<or> (\<exists>a b c e. accuracy_score sk y_val pred_labels = Inr a \<and>
      f1_score sk y_val pred_labels ''weighted'' = Inr b \<and>
      average_precision_score sk y_val pred_labels ''macro'' = Inr c \<and>
      roc_auc_score sk y_val pred_scores ''ovo'' = Inl e \<and>
      write_evaluation_scores sk py_str fs f_name y_val pred_labels pred_scores =
        (Some e, fs\<lparr>files := (files fs)(''output/'' @ f_name \<mapsto>
           ''Accuracy score: '' @ py_str a @ ''\<newline>'' @
           ''F1 score: '' @ py_str b @ ''\<newline>'' @
           ''Average precision score: '' @ py_str c @ ''\<newline>'')\<rparr>))
   \<or> (\<exists>a b c d. accuracy_score sk y_val pred_labels = Inr a \<and>
      f1_score sk y_val pred_labels ''weighted'' = Inr b \<and>
      average_precision_score sk y_val pred_labels ''macro'' = Inr c \<and>
      roc_auc_score sk y_val pred_scores ''ovo'' = Inr d \<and>
      write_evaluation_scores sk py_str fs f_name y_val pred_labels pred_scores =
        (None, fs\<lparr>files := (files fs)(''output/'' @ f_name \<mapsto>
           ''Accuracy score: '' @ py_str a @ ''\<newline>'' @
           ''F1 score: '' @ py_str b @ ''\<newline>'' @
           ''Average precision score: '' @ py_str c @ ''\<newline>'' @
           ''ROC AUC score: '' @ py_str d @ ''\<newline>'')\<rparr>))"
proof (cases "writable fs (''output/'' @ f_name)")
  case False
  then show ?thesis by (simp add: wes_open_fails)
next
  case w: True
  show ?thesis
  proof (cases "accuracy_score sk y_val pred_labels")
    case (Inl e)
    with w show ?thesis by (simp add: wes_accuracy_raises)
  next
    case a: (Inr a)
    show ?thesis
    proof (cases "f1_score sk y_val pred_labels ''weighted''")
      case (Inl e)
      with w a show ?thesis by (simp add: wes_f1_raises)
    next
      case b: (Inr b)
      show ?thesis
      proof (cases "average_precision_score sk y_val pred_labels ''macro''")
        case (Inl e)
        with w a b show ?thesis by (simp add: wes_average_precision_raises)
      next
        case c: (Inr c)
        show ?thesis
        proof (cases "roc_auc_score sk y_val pred_scores ''ovo''")
          case (Inl e)
          with w a b c show ?thesis by (simp add: wes_roc_auc_raises)
        next
          case (Inr d)
          with w a b c show ?thesis by (simp add: wes_returns)
        qed
      qed
    qed
  qed
qed

lemma wes_None:
  assumes "write_evaluation_scores sk py_str fs f_name y_val pred_labels pred_scores = (None, fs')"
  shows "\<exists>a b c d. accuracy_score sk y_val pred_labels = Inr a \<and>
      f1_score sk y_val pred_labels ''weighted'' = Inr b \<and>
      average_precision_score sk y_val pred_labels ''macro'' = Inr c \<and>
      roc_auc_score sk y_val pred_scores ''ovo'' = Inr d \<and>
      fs' = fs\<lparr>files := (files fs)(''output/'' @ f_name \<mapsto>
           ''Accuracy score: '' @ py_str a @ ''\<newline>'' @
           ''F1 score: '' @ py_str b @ ''\<newline>'' @
           ''Average precision score: '' @ py_str c @ ''\<newline>'' @
           ''ROC AUC score: '' @ py_str d @ ''\<newline>'')\<rparr>"
  using assms wes_outcomes [of fs f_name sk py_str y_val pred_labels pred_scores]
  by (elim disjE exE conjE) simp_all

subsection \<open>Two worked runs\<close>

text \<open>
  First run: two validation examples with one label each, a classifier whose decision
  scores are all negative (so it predicts no label) and rank every true label first.
  Second run: predictions equal to the truth and the second label present in every
  validation example, so that its column holds a single class and \<open>roc_auc_score\<close> raises
  \<open>ValueError\<close>.
  Third run: label predictions equal to the truth and a score matrix with one row for two
  validation examples, which \<open>roc_auc_score\<close> refuses with \<open>ValueError\<close>.
\<close>

lemma example_accuracy_0:
  "sklearn_accuracy_score [[1, 0], [0, 1]] [[0, 0], [0, 0]] = Inr (Float 0)"
  by (simp add: sklearn_accuracy_score_def same_shape_def)

lemma example_accuracy_1:
  "sklearn_accuracy_score [[1, 1], [0, 1]] [[1, 1], [0, 1]] = Inr (Float 1)"
  by (simp add: sklearn_accuracy_score_def same_shape_def)

lemma example_f1_0: "weighted_f1 [[1, 0], [0, 1]] [[0, 0], [0, 0]] = Inr (Float 0)"
  by (simp add: weighted_f1_def same_shape_def columns_def binary_f1_def)

lemma example_f1_1: "weighted_f1 [[1, 1], [0, 1]] [[1, 1], [0, 1]] = Inr (Float 1)"
  by (simp add: weighted_f1_def same_shape_def columns_def binary_f1_def)

lemma example_roc_1: "macro_roc_auc [[1, 0], [0, 1]] [[-1, -3], [-2, -1]] = Inr (Float 1)"
  by (simp add: macro_roc_auc_def average_binary_score_def columns_def binary_roc_auc_def
        np_mean_def upt_rec)

lemma example_roc_raises: "macro_roc_auc [[1, 1], [0, 1]] [[1, 2], [-1, 3]] = Inl ValueError"
  by (simp add: macro_roc_auc_def average_binary_score_def columns_def binary_roc_auc_def
        upt_rec)

lemma example_ap_labels:
  "macro_average_precision [[1, 0], [0, 1]] [[0, 0], [0, 0]] = Inr (Float (1/2))"
  by (simp add: macro_average_precision_def average_binary_score_def np_mean_def columns_def
        binary_average_precision_def upt_rec)

lemma example_ap_scores:
  "macro_average_precision [[1, 0], [0, 1]] [[-1, -3], [-2, -1]] = Inr (Float 1)"
  by (simp add: macro_average_precision_def average_binary_score_def np_mean_def columns_def
        binary_average_precision_def upt_rec)

lemma example_ap_1:
  "macro_average_precision [[1, 1], [0, 1]] [[1, 1], [0, 1]] = Inr (Float 1)"
  by (simp add: macro_average_precision_def average_binary_score_def np_mean_def columns_def
        binary_average_precision_def upt_rec)

lemma example_writable: "writable example_fs (''output/'' @ f_name)"
  by (simp add: example_fs_def)

lemma example_run_returns:
  "write_evaluation_scores sklearn_metrics example_str example_fs
     ''stats.txt'' [[1, 0], [0, 1]] [[0, 0], [0, 0]] [[-1, -3], [-2, -1]]
   = (None, example_fs\<lparr>files := (files example_fs)(''output/stats.txt'' \<mapsto>
       ''Accuracy score: 0.0\<newline>F1 score: 0.0\<newline>Average precision score: 0.5\<newline>ROC AUC score: 1.0\<newline>'')\<rparr>)"
  using wes_returns [of example_fs "''stats.txt''" sklearn_metrics
      "[[1, 0], [0, 1]]" "[[0, 0], [0, 0]]" "Float 0" "Float 0" "Float (1/2)"
      "[[-1, -3], [-2, -1]]" "Float 1" example_str]
  by (simp add: example_writable [of "''stats.txt''", simplified] sklearn_metrics_def
        example_accuracy_0 example_f1_0 example_ap_labels example_roc_1)

lemma example_run_raises:
  "write_evaluation_scores sklearn_metrics example_str example_fs
     ''stats.txt'' [[1, 1], [0, 1]] [[1, 1], [0, 1]] [[1, 2], [-1, 3]]
   = (Some ValueError, example_fs\<lparr>files := (files example_fs)(''output/stats.txt'' \<mapsto>
       ''Accuracy score: 1.0\<newline>F1 score: 1.0\<newline>Average precision score: 1.0\<newline>'')\<rparr>)"
  using wes_roc_auc_raises [of example_fs "''stats.txt''"
      sklearn_metrics
      "[[1, 1], [0, 1]]" "[[1, 1], [0, 1]]" "Float 1" "Float 1" "Float 1"
      "[[1, 2], [-1, 3]]" ValueError example_str]
  by (simp add: example_writable [of "''stats.txt''", simplified] sklearn_metrics_def
        example_accuracy_1 example_f1_1 example_ap_1 example_roc_raises)

lemma example_accuracy_id: "sklearn_accuracy_score [[1, 0], [0, 1]] [[1, 0], [0, 1]] = Inr (Float 1)"
  by (simp add: sklearn_accuracy_score_def same_shape_def)

lemma example_f1_id: "weighted_f1 [[1, 0], [0, 1]] [[1, 0], [0, 1]] = Inr (Float 1)"
  by (simp add: weighted_f1_def same_shape_def columns_def binary_f1_def)

lemma example_ap_id: "macro_average_precision [[1, 0], [0, 1]] [[1, 0], [0, 1]] = Inr (Float 1)"
  by (simp add: macro_average_precision_def average_binary_score_def np_mean_def columns_def
        binary_average_precision_def upt_rec)

lemma example_roc_rows: "macro_roc_auc [[1, 0], [0, 1]] [[1, -1]] = Inl ValueError"
  by (simp add: macro_roc_auc_def average_binary_score_def)

lemma example_run_short_scores:
  "write_evaluation_scores sklearn_metrics example_str example_fs
     ''stats.txt'' [[1, 0], [0, 1]] [[1, 0], [0, 1]] [[1, -1]]
   = (Some ValueError, example_fs\<lparr>files := (files example_fs)(''output/stats.txt'' \<mapsto>
       ''Accuracy score: 1.0\<newline>F1 score: 1.0\<newline>Average precision score: 1.0\<newline>'')\<rparr>)"
  using wes_roc_auc_raises [of example_fs "''stats.txt''" sklearn_metrics
      "[[1, 0], [0, 1]]" "[[1, 0], [0, 1]]" "Float 1" "Float 1" "Float 1"
      "[[1, -1]]" ValueError example_str]
  by (simp add: example_writable [of "''stats.txt''", simplified] sklearn_metrics_def
        example_accuracy_id example_f1_id example_ap_id example_roc_rows)

section \<open>The evaluation report\<close>

text \<open>
  Claim C10. For every file name \<open>f_name\<close>, \<open>write_evaluation_scores\<close> writes the report
  to the path \<open>"output/" + f_name\<close>, the prefix being a literal of the function. The file
  system after a run is the one before it with, when \<open>open\<close> accepts that path, the file at
  that path holding the report text: one line \<open>"<Metric name>: <value>\n"\<close> for each of
  the four metrics in order, up to the first that raises (all four when none does). No
  other file is created or changed, and nothing changes when \<open>open\<close> refuses the path.
\<close>

theorem report_written_to_output_path:
  "snd (write_evaluation_scores sk py_str fs f_name y_val pred_labels pred_scores) =
     (if writable fs (''output/'' @ f_name)
      then fs\<lparr>files := (files fs)(''output/'' @ f_name \<mapsto>
             concat (map (\<lambda>(name, r). name @ '': '' @ py_str (projr r) @ ''\<newline>'')
               (takeWhile (\<lambda>(name, r). \<not> isl r)
                  [(''Accuracy score'', accuracy_score sk y_val pred_labels),
                   (''F1 score'', f1_score sk y_val pred_labels ''weighted''),
                   (''Average precision score'',
                      average_precision_score sk y_val pred_labels ''macro''),
                   (''ROC AUC score'', roc_auc_score sk y_val pred_scores ''ovo'')])))\<rparr>
      else fs)"
proof (cases "writable fs (''output/'' @ f_name)")
  case False
  then show ?thesis by (simp add: wes_open_fails)
next
  case w: True
  show ?thesis
  proof (cases "accuracy_score sk y_val pred_labels")
    case (Inl e)
    with w show ?thesis by (simp add: wes_accuracy_raises)
  next
    case a: (Inr a)
    show ?thesis
    proof (cases "f1_score sk y_val pred_labels ''weighted''")
      case (Inl e)
      with w a show ?thesis by (simp add: wes_f1_raises)
    next
      case b: (Inr b)
      show ?thesis
      proof (cases "average_precision_score sk y_val pred_labels ''macro''")
        case (Inl e)
        with w a b show ?thesis by (simp add: wes_average_precision_raises)
      next
        case c: (Inr c)
        show ?thesis
        proof (cases "roc_auc_score sk y_val pred_scores ''ovo''")
          case (Inl e)
          with w a b c show ?thesis by (simp add: wes_roc_auc_raises)
        next
          case (Inr d)
          with w a b c show ?thesis by (simp add: wes_returns)
        qed
      qed
    qed
  qed
qed

theorem report_written_to_output_path_witness:
  "writable example_fs (''output/'' @ ''stats.txt'')
   \<and> snd (write_evaluation_scores sklearn_metrics example_str example_fs ''stats.txt''
            [[1, 0], [0, 1]] [[0, 0], [0, 0]] [[-1, -3], [-2, -1]])
     = example_fs\<lparr>files := (files example_fs)(''output/stats.txt'' \<mapsto>
         ''Accuracy score: 0.0\<newline>F1 score: 0.0\<newline>Average precision score: 0.5\<newline>ROC AUC score: 1.0\<newline>'')\<rparr>
   \<and> \<not> writable (example_fs\<lparr>writable := (\<lambda>p. False)\<rparr>) (''output/'' @ ''stats.txt'')
   \<and> snd (write_evaluation_scores sklearn_metrics example_str
            (example_fs\<lparr>writable := (\<lambda>p. False)\<rparr>) ''stats.txt''
            [[1, 0], [0, 1]] [[0, 0], [0, 0]] [[-1, -3], [-2, -1]])
     = example_fs\<lparr>writable := (\<lambda>p. False)\<rparr>"
  using report_written_to_output_path [of sklearn_metrics example_str example_fs "''stats.txt''"
      "[[1, 0], [0, 1]]" "[[0, 0], [0, 0]]" "[[-1, -3], [-2, -1]]"]
    report_written_to_output_path [of sklearn_metrics example_str
      "example_fs\<lparr>writable := (\<lambda>p. False)\<rparr>" "''stats.txt''"
      "[[1, 0], [0, 1]]" "[[0, 0], [0, 0]]" "[[-1, -3], [-2, -1]]"]
    example_writable [of "''stats.txt''"]
  by (simp add: example_run_returns wes_open_fails)


text \<open>
  Claim C4, as the code has it. For every evaluation run that returns, the report text is
  exactly four lines, each of the form \<open>"<Metric name>: <value>\n"\<close>, in the fixed order:
  accuracy first, weighted F1 second, macro average precision third, ROC AUC fourth. The
  text has four line ends whenever the rendering of a value has none.
\<close>

theorem report_four_lines_in_order:
  assumes "write_evaluation_scores sk py_str fs f_name y_val pred_labels pred_scores = (None, fs')"
  shows "\<exists>a b c d txt.
      accuracy_score sk y_val pred_labels = Inr a \<and>
      f1_score sk y_val pred_labels ''weighted'' = Inr b \<and>
      average_precision_score sk y_val pred_labels ''macro'' = Inr c \<and>
      roc_auc_score sk y_val pred_scores ''ovo'' = Inr d \<and>
      files fs' (''output/'' @ f_name) = Some txt \<and>
      txt = ''Accuracy score: '' @ py_str a @ ''\<newline>'' @
            ''F1 score: '' @ py_str b @ ''\<newline>'' @
            ''Average precision score: '' @ py_str c @ ''\<newline>'' @
            ''ROC AUC score: '' @ py_str d @ ''\<newline>'' \<and>
      ((\<forall>v. CHR 0x0A \<notin> set (py_str v)) \<longrightarrow> length (filter (\<lambda>ch. ch = CHR 0x0A) txt) = 4)"
proof -
  from wes_None [OF assms] obtain a b c d where
    m: "accuracy_score sk y_val pred_labels = Inr a"
       "f1_score sk y_val pred_labels ''weighted'' = Inr b"
       "average_precision_score sk y_val pred_labels ''macro'' = Inr c"
       "roc_auc_score sk y_val pred_scores ''ovo'' = Inr d"
    and fs': "fs' = fs\<lparr>files := (files fs)(''output/'' @ f_name \<mapsto>
           ''Accuracy score: '' @ py_str a @ ''\<newline>'' @
           ''F1 score: '' @ py_str b @ ''\<newline>'' @
           ''Average precision score: '' @ py_str c @ ''\<newline>'' @
           ''ROC AUC score: '' @ py_str d @ ''\<newline>'')\<rparr>"
    by blast
  have n: "(\<forall>v. CHR 0x0A \<notin> set (py_str v)) \<longrightarrow>
      length (filter (\<lambda>ch. ch = CHR 0x0A)
        (''Accuracy score: '' @ py_str a @ ''\<newline>'' @
         ''F1 score: '' @ py_str b @ ''\<newline>'' @
         ''Average precision score: '' @ py_str c @ ''\<newline>'' @
         ''ROC AUC score: '' @ py_str d @ ''\<newline>'')) = 4"
    by (auto simp add: filter_empty_conv)
  from m fs' n show ?thesis by simp
qed

theorem report_four_lines_in_order_witness:
  "write_evaluation_scores sklearn_metrics example_str example_fs
     ''stats.txt'' [[1, 0], [0, 1]] [[0, 0], [0, 0]] [[-1, -3], [-2, -1]]
   = (None, example_fs\<lparr>files := (files example_fs)(''output/stats.txt'' \<mapsto>
       ''Accuracy score: 0.0\<newline>F1 score: 0.0\<newline>Average precision score: 0.5\<newline>ROC AUC score: 1.0\<newline>'')\<rparr>)
   \<and> (\<exists>txt. files (example_fs\<lparr>files := (files example_fs)(''output/stats.txt'' \<mapsto>
       ''Accuracy score: 0.0\<newline>F1 score: 0.0\<newline>Average precision score: 0.5\<newline>ROC AUC score: 1.0\<newline>'')\<rparr>)
         ''output/stats.txt'' = Some txt \<and> length (filter (\<lambda>ch. ch = CHR 0x0A) txt) = 4)"
  using report_four_lines_in_order [OF example_run_returns] example_run_returns
  by simp

text \<open>
  The claim as stated, for every run, fails in the third worked run: the run raises at the
  fourth metric and the text it has emitted has three lines.
\<close>

theorem report_three_lines_counterexample:
  "files (snd (write_evaluation_scores sklearn_metrics example_str example_fs
          ''stats.txt'' [[1, 0], [0, 1]] [[1, 0], [0, 1]] [[1, -1]])) ''output/stats.txt''
     = Some ''Accuracy score: 1.0\<newline>F1 score: 1.0\<newline>Average precision score: 1.0\<newline>''
   \<and> length (filter (\<lambda>ch. ch = CHR 0x0A)
         ''Accuracy score: 1.0\<newline>F1 score: 1.0\<newline>Average precision score: 1.0\<newline>'') = 3"
  by (simp add: example_run_short_scores)

text \<open>
  Claim C2, as the code has it. The report is written line by line into the opened file, so
  the evaluation step is not atomic. Every run ends in one of three ways: all four metrics
  are computed and the file holds the complete four-line report; or \<open>open\<close> raises and the
  file system is untouched; or one of the metrics raises, and then the file exists and holds
  exactly the lines of the metrics computed before it (none when the first metric raises).
\<close>

theorem evaluation_run_outcomes:
  "(fst (write_evaluation_scores sk py_str fs f_name y_val pred_labels pred_scores) = None \<and>
      (\<exists>a b c d. accuracy_score sk y_val pred_labels = Inr a \<and>
         f1_score sk y_val pred_labels ''weighted'' = Inr b \<and>
         average_precision_score sk y_val pred_labels ''macro'' = Inr c \<and>
         roc_auc_score sk y_val pred_scores ''ovo'' = Inr d \<and>
         files (snd (write_evaluation_scores sk py_str fs f_name y_val pred_labels pred_scores))
             (''output/'' @ f_name)
           = Some (''Accuracy score: '' @ py_str a @ ''\<newline>'' @
                   ''F1 score: '' @ py_str b @ ''\<newline>'' @
                   ''Average precision score: '' @ py_str c @ ''\<newline>'' @
                   ''ROC AUC score: '' @ py_str d @ ''\<newline>'')))
   \<or> (\<not> writable fs (''output/'' @ f_name) \<and>
        write_evaluation_scores sk py_str fs f_name y_val pred_labels pred_scores
          = (Some OSError, fs))
   \<or> (writable fs (''output/'' @ f_name) \<and>
        (\<exists>e. fst (write_evaluation_scores sk py_str fs f_name y_val pred_labels pred_scores)
               = Some e \<and>
          ((accuracy_score sk y_val pred_labels = Inl e \<and>
            files (snd (write_evaluation_scores sk py_str fs f_name y_val pred_labels pred_scores))
                (''output/'' @ f_name) = Some [])
         \<or> (\<exists>a. accuracy_score sk y_val pred_labels = Inr a \<and>
              f1_score sk y_val pred_labels ''weighted'' = Inl e \<and>
              files (snd (write_evaluation_scores sk py_str fs f_name y_val pred_labels pred_scores))
                  (''output/'' @ f_name)
                = Some (''Accuracy score: '' @ py_str a @ ''\<newline>''))
         \<or> (\<exists>a b. accuracy_score sk y_val pred_labels = Inr a \<and>
              f1_score sk y_val pred_labels ''weighted'' = Inr b \<and>
              average_precision_score sk y_val pred_labels ''macro'' = Inl e \<and>
              files (snd (write_evaluation_scores sk py_str fs f_name y_val pred_labels pred_scores))
                  (''output/'' @ f_name)
                = Some (''Accuracy score: '' @ py_str a @ ''\<newline>'' @
                        ''F1 score: '' @ py_str b @ ''\<newline>''))
         \<or> (\<exists>a b c. accuracy_score sk y_val pred_labels = Inr a \<and>
              f1_score sk y_val pred_labels ''weighted'' = Inr b \<and>
              average_precision_score sk y_val pred_labels ''macro'' = Inr c \<and>
              roc_auc_score sk y_val pred_scores ''ovo'' = Inl e \<and>
              files (snd (write_evaluation_scores sk py_str fs f_name y_val pred_labels pred_scores))
                  (''output/'' @ f_name)
                = Some (''Accuracy score: '' @ py_str a @ ''\<newline>'' @
                        ''F1 score: '' @ py_str b @ ''\<newline>'' @
                        ''Average precision score: '' @ py_str c @ ''\<newline>'')))))"
proof (cases "writable fs (''output/'' @ f_name)")
  case False
  then show ?thesis by (simp add: wes_open_fails)
next
  case True
  with wes_outcomes [of fs f_name sk py_str y_val pred_labels pred_scores]
  show ?thesis
    by (elim disjE exE conjE) simp_all
qed

theorem evaluation_run_outcomes_witness:
  "\<not> writable (example_fs\<lparr>writable := (\<lambda>p. False)\<rparr>) (''output/'' @ ''stats.txt'')
   \<and> write_evaluation_scores sklearn_metrics example_str
        (example_fs\<lparr>writable := (\<lambda>p. False)\<rparr>) ''stats.txt''
        [[1, 1], [0, 1]] [[1, 1], [0, 1]] [[1, 2], [-1, 3]]
      = (Some OSError, example_fs\<lparr>writable := (\<lambda>p. False)\<rparr>)"
  using evaluation_run_outcomes [of sklearn_metrics example_str
      "example_fs\<lparr>writable := (\<lambda>p. False)\<rparr>" "''stats.txt''"
      "[[1, 1], [0, 1]]" "[[1, 1], [0, 1]]" "[[1, 2], [-1, 3]]"]
  by (simp add: wes_open_fails)

text \<open>
  The claim as stated fails in the second worked run: \<open>roc_auc_score\<close> raises after three
  metrics were written, and the file, absent before, holds a three-line report.
\<close>

theorem partial_report_counterexample:
  "fst (write_evaluation_scores sklearn_metrics example_str
          example_fs ''stats.txt'' [[1, 1], [0, 1]] [[1, 1], [0, 1]] [[1, 2], [-1, 3]])
     = Some ValueError
   \<and> files example_fs ''output/stats.txt'' = None
   \<and> files (snd (write_evaluation_scores sklearn_metrics
          example_str example_fs ''stats.txt'' [[1, 1], [0, 1]] [[1, 1], [0, 1]] [[1, 2], [-1, 3]]))
        ''output/stats.txt''
     = Some ''Accuracy score: 1.0\<newline>F1 score: 1.0\<newline>Average precision score: 1.0\<newline>''"
  by (simp add: example_run_raises) (simp add: example_fs_def)

text \<open>
  Claim C1, as the code has it. The value on the average precision line is
  \<open>average_precision_score(y_val, pred_labels, average="macro")\<close>: it is computed from the
  hard label predictions, macro averaged; \<open>pred_scores\<close> goes into the ROC AUC line only.
\<close>

theorem average_precision_uses_pred_labels:
  assumes "write_evaluation_scores sk py_str fs f_name y_val pred_labels pred_scores = (None, fs')"
  shows "\<exists>c head tail.
      average_precision_score sk y_val pred_labels ''macro'' = Inr c \<and>
      files fs' (''output/'' @ f_name)
        = Some (head @ ''Average precision score: '' @ py_str c @ ''\<newline>'' @ tail) \<and>
      (\<exists>a b. accuracy_score sk y_val pred_labels = Inr a \<and>
             f1_score sk y_val pred_labels ''weighted'' = Inr b \<and>
             head = ''Accuracy score: '' @ py_str a @ ''\<newline>'' @
                    ''F1 score: '' @ py_str b @ ''\<newline>'') \<and>
      (\<exists>d. roc_auc_score sk y_val pred_scores ''ovo'' = Inr d \<and>
           tail = ''ROC AUC score: '' @ py_str d @ ''\<newline>'')"
  using wes_None [OF assms] by (elim exE conjE) simp

theorem average_precision_uses_pred_labels_witness:
  "write_evaluation_scores sklearn_metrics example_str example_fs
     ''stats.txt'' [[1, 0], [0, 1]] [[0, 0], [0, 0]] [[-1, -3], [-2, -1]]
   = (None, example_fs\<lparr>files := (files example_fs)(''output/stats.txt'' \<mapsto>
       ''Accuracy score: 0.0\<newline>F1 score: 0.0\<newline>Average precision score: 0.5\<newline>ROC AUC score: 1.0\<newline>'')\<rparr>)
   \<and> average_precision_score sklearn_metrics
         [[1, 0], [0, 1]] [[0, 0], [0, 0]] ''macro'' = Inr (Float (1/2))"
  using average_precision_uses_pred_labels [OF example_run_returns] example_run_returns
  by (simp add: sklearn_metrics_def example_ap_labels)

text \<open>
  The claim as stated fails in the first worked run: the decision scores rank every true
  label first, so their macro average precision is 1, yet the report says 0.5, the average
  precision of the all-zero label predictions.
\<close>

theorem average_precision_from_scores_counterexample:
  "files (snd (write_evaluation_scores sklearn_metrics
          example_str example_fs ''stats.txt''
          [[1, 0], [0, 1]] [[0, 0], [0, 0]] [[-1, -3], [-2, -1]])) ''output/stats.txt''
     = Some ''Accuracy score: 0.0\<newline>F1 score: 0.0\<newline>Average precision score: 0.5\<newline>ROC AUC score: 1.0\<newline>''
   \<and> average_precision_score sklearn_metrics
         [[1, 0], [0, 1]] [[-1, -3], [-2, -1]] ''macro'' = Inr (Float 1)
   \<and> example_str (Float 1) = ''1.0''"
proof -
  have "average_precision_score sklearn_metrics
          [[1, 0], [0, 1]] [[-1, -3], [-2, -1]] ''macro'' = Inr (Float 1)"
    using example_ap_scores by (simp add: sklearn_metrics_def)
  moreover have "example_str (Float 1) = ''1.0''"
    by simp
  ultimately show ?thesis
    by (simp add: example_run_returns)
qed

section \<open>The ROC AUC line\<close>

text \<open>
  Claim C7. The fourth reported metric is meant to be a multi-class ROC AUC by one-vs-one
  pairwise comparison among labels on the continuous prediction scores, averaged across
  all label pairs: line 56 asks for it with \<open>multi_class="ovo"\<close>. The code does not deliver
  it, since the library does not use that argument on an indicator matrix. For five
  validation examples with one label each, the third label three times, where the score of
  the first label ranks its one example above the example of the second label and below
  the three of the third label, the value reported is 3/4, the mean of the per-label
  values, and the average over the label pairs is 5/6.
\<close>

theorem roc_auc_reported_is_not_pairwise:
  "roc_auc_score sklearn_metrics
       [[1, 0, 0], [0, 1, 0], [0, 0, 1], [0, 0, 1], [0, 0, 1]]
       [[-1, -1, -1], [-2, 1, -1], [1, -1, 1], [1, -1, 1], [1, -1, 1]] ''ovo''
     = Inr (Float (3/4))
   \<and> spec_pairwise_roc_auc
       [[1, 0, 0], [0, 1, 0], [0, 0, 1], [0, 0, 1], [0, 0, 1]]
       [[-1, -1, -1], [-2, 1, -1], [1, -1, 1], [1, -1, 1], [1, -1, 1]]
     = Inr (Float (5/6))"
proof -
  have "macro_roc_auc
       [[1, 0, 0], [0, 1, 0], [0, 0, 1], [0, 0, 1], [0, 0, 1]]
       [[-1, -1, -1], [-2, 1, -1], [1, -1, 1], [1, -1, 1], [1, -1, 1]]
     = Inr (Float (3/4))"
    by (simp add: macro_roc_auc_def average_binary_score_def columns_def binary_roc_auc_def
          np_mean_def upt_rec)
  moreover have "spec_pairwise_roc_auc
       [[1, 0, 0], [0, 1, 0], [0, 0, 1], [0, 0, 1], [0, 0, 1]]
       [[-1, -1, -1], [-2, 1, -1], [1, -1, 1], [1, -1, 1], [1, -1, 1]]
     = Inr (Float (5/6))"
    by (simp add: spec_pairwise_roc_auc_def spec_pair_auc_def columns_def np_mean_def upt_rec)
  ultimately show ?thesis
    by (simp add: sklearn_metrics_def)
qed

section \<open>Aligned columns and unknown labels\<close>

text \<open>With \<open>classes\<close> given, fitting and transforming has a closed form.\<close>

lemma mlb_fit_transform_given_classes:
  "classes mlb = Some cs \<Longrightarrow>
   mlb_fit_transform mlb y =
     (if distinct cs
      then Inr (map (\<lambda>labels. map (\<lambda>c. if c \<in> set labels then 1 else 0) cs) y,
                mlb\<lparr>fitted_classes := Some cs\<rparr>)
      else Inl ValueError)"
proof -
  have "length (remdups cs) < length cs \<longleftrightarrow> \<not> distinct cs"
    using length_remdups_leq [of cs] distinct_remdups_id [of cs] length_remdups_eq [of cs]
    by (auto simp add: order.strict_iff_order)
  then show "classes mlb = Some cs \<Longrightarrow> ?thesis"
    by (simp add: mlb_fit_transform_def mlb_fit_def mlb_transform_def)
qed

lemma main_binarize_eq:
  "main_binarize sorted_tags y_train y_val =
     (if distinct sorted_tags
      then Inr (map (\<lambda>labels. map (\<lambda>c. if c \<in> set labels then 1 else 0) (sort sorted_tags)) y_train,
                map (\<lambda>labels. map (\<lambda>c. if c \<in> set labels then 1 else 0) (sort sorted_tags)) y_val,
                \<lparr>classes = Some (sort sorted_tags), fitted_classes = Some (sort sorted_tags)\<rparr>)
      else Inl ValueError)"
  by (simp add: main_binarize_def mlb_fit_transform_given_classes)

lemma row_drop_unknown:
  "map (\<lambda>c. if c \<in> set (filter (\<lambda>l. l \<in> set cs) labels) then 1 else (0::rat)) cs
   = map (\<lambda>c. if c \<in> set labels then 1 else 0) cs"
  by (rule map_cong) auto

lemma ex_sort: "sort [''b'', ''a''] = [''a'', ''b'']" by code_simp

lemma ex_sort3: "sort [''c'', ''a'', ''b''] = [''a'', ''b'', ''c'']" by code_simp

lemma example_binarize:
  "main_binarize [''c'', ''a'', ''b''] [[''a''], [''b'', ''c''], [''a'', ''c'']] [[''c''], [''b'']]
     = Inr ([[1, 0, 0], [0, 1, 1], [1, 0, 1]], [[0, 0, 1], [0, 1, 0]],
            \<lparr>classes = Some [''a'', ''b'', ''c''], fitted_classes = Some [''a'', ''b'', ''c'']\<rparr>)"
  by (simp add: main_binarize_eq ex_sort3)

text \<open>
  Claim C5. The train and the validation label sets are binarized against the same
  vocabulary in the same order, \<open>sorted(sorted_tags)\<close>: whenever the binarization stage of
  \<open>main\<close> returns, every row of both indicator matrices has one column per tag, and for
  every index \<open>i\<close> column \<open>i\<close> of the train matrix and column \<open>i\<close> of the validation matrix
  both say whether tag \<open>i\<close> of the sorted vocabulary is in the label set of the row.
\<close>

theorem binarization_columns_aligned:
  assumes "main_binarize sorted_tags y_train y_val = Inr (Y_train, Y_val, mlb)"
  shows "fitted_classes mlb = Some (sort sorted_tags)
    \<and> length Y_train = length y_train \<and> length Y_val = length y_val
    \<and> (\<forall>r<length y_train. length (Y_train ! r) = length sorted_tags \<and>
          (\<forall>i<length sorted_tags.
             Y_train ! r ! i = (if sort sorted_tags ! i \<in> set (y_train ! r) then 1 else 0)))
    \<and> (\<forall>r<length y_val. length (Y_val ! r) = length sorted_tags \<and>
          (\<forall>i<length sorted_tags.
             Y_val ! r ! i = (if sort sorted_tags ! i \<in> set (y_val ! r) then 1 else 0)))"
  using assms by (auto simp add: main_binarize_eq split: if_splits)

theorem binarization_columns_aligned_witness:
  "main_binarize [''c'', ''a'', ''b''] [[''a''], [''b'', ''c''], [''a'', ''c'']] [[''c''], [''b'']]
     = Inr ([[1, 0, 0], [0, 1, 1], [1, 0, 1]], [[0, 0, 1], [0, 1, 0]],
            \<lparr>classes = Some [''a'', ''b'', ''c''], fitted_classes = Some [''a'', ''b'', ''c'']\<rparr>)
   \<and> fitted_classes \<lparr>classes = Some [''a'', ''b'', ''c''], fitted_classes = Some [''a'', ''b'', ''c'']\<rparr>
       = Some (sort [''c'', ''a'', ''b''])
   \<and> [[1, 0, 0], [0, 1, 1], [1, 0, (1::rat)]] ! 2 ! 2
       = (if sort [''c'', ''a'', ''b''] ! 2 \<in> set ([[''a''], [''b'', ''c''], [''a'', ''c'']] ! 2) then 1 else 0)
   \<and> [[0, 0, 1], [0, 1, (0::rat)]] ! 0 ! 2
       = (if sort [''c'', ''a'', ''b''] ! 2 \<in> set ([[''c''], [''b'']] ! 0) then 1 else 0)"
  using binarization_columns_aligned [OF example_binarize] example_binarize
  by (simp add: ex_sort3)

text \<open>
  Claim C3, as the code has it. A label that is absent from the vocabulary does not make
  binarization fail: it is ignored. The stage gives the result that it gives for the label
  sets with the absent labels removed; it returns whenever the tags have no duplicate, and
  raises (\<open>ValueError\<close>) only when they have one.
\<close>

theorem unknown_labels_ignored:
  "main_binarize sorted_tags y_train y_val
     = main_binarize sorted_tags (map (filter (\<lambda>l. l \<in> set sorted_tags)) y_train)
         (map (filter (\<lambda>l. l \<in> set sorted_tags)) y_val)
   \<and> (distinct sorted_tags \<longrightarrow>
        (\<exists>Y_train Y_val mlb. main_binarize sorted_tags y_train y_val = Inr (Y_train, Y_val, mlb)))
   \<and> (\<not> distinct sorted_tags \<longrightarrow> main_binarize sorted_tags y_train y_val = Inl ValueError)"
proof -
  have "map (\<lambda>c. if c \<in> set (filter (\<lambda>l. l \<in> set sorted_tags) labels) then 1 else (0::rat))
          (sort sorted_tags)
        = map (\<lambda>c. if c \<in> set labels then 1 else 0) (sort sorted_tags)" for labels
    using row_drop_unknown [of "sort sorted_tags" labels] by simp
  then show ?thesis
    by (simp add: main_binarize_eq comp_def)
qed

theorem unknown_labels_ignored_witness:
  "distinct [''b'', ''a'']
   \<and> main_binarize [''b'', ''a''] [[''a'', ''x'']] [[''b'']]
       = main_binarize [''b'', ''a''] [[''a'']] [[''b'']]
   \<and> \<not> distinct [''a'', ''a'']
   \<and> main_binarize [''a'', ''a''] [[''a'', ''x'']] [[''b'']] = Inl ValueError"
  using unknown_labels_ignored [of "[''b'', ''a'']" "[[''a'', ''x'']]" "[[''b'']]"]
    unknown_labels_ignored [of "[''a'', ''a'']" "[[''a'', ''x'']]" "[[''b'']]"]
  by (simp add: main_binarize_eq)

text \<open>
  The claim as stated fails for the tags \<open>b, a\<close> and a train label set \<open>{a, x}\<close>: the
  stage returns, and \<open>x\<close> has left no trace in the row.
\<close>

theorem unknown_label_counterexample:
  "''x'' \<notin> set [''b'', ''a'']
   \<and> main_binarize [''b'', ''a''] [[''a'', ''x'']] [[''b'']]
       = Inr ([[1, 0]], [[0, 1]],
              \<lparr>classes = Some [''a'', ''b''], fitted_classes = Some [''a'', ''b'']\<rparr>)"
  by (simp add: main_binarize_eq ex_sort)

section \<open>Exact-match accuracy\<close>

lemma count_matching_rows:
  "length xs = length ys \<Longrightarrow>
   length (filter (\<lambda>(t, p). t = p) (zip xs ys)) = card {r. r < length xs \<and> ys ! r = xs ! r}"
proof -
  assume l: "length xs = length ys"
  have "{i. i < length (zip xs ys) \<and> (\<lambda>(t, p). t = p) (zip xs ys ! i)}
        = {r. r < length xs \<and> ys ! r = xs ! r}"
    using l by auto
  then show ?thesis
    by (simp add: length_filter_conv_card)
qed

text \<open>
  Claim C6, amended. The accuracy metric is strict exact match: for a true and a
  predicted matrix of equal shape with at least one row, it is the fraction of rows where
  the predicted row equals the true row; it is 1 when the predicted matrix equals the true
  matrix and 0 when no row matches.
\<close>

theorem accuracy_is_exact_match_rate:
  assumes "same_shape y_true y_pred" and "y_true \<noteq> []"
  shows "sklearn_accuracy_score y_true y_pred
           = Inr (Float (of_nat (card {r. r < length y_true \<and> y_pred ! r = y_true ! r})
                          / of_nat (length y_true)))
    \<and> (y_pred = y_true \<longrightarrow> sklearn_accuracy_score y_true y_pred = Inr (Float 1))
    \<and> ((\<forall>r<length y_true. y_pred ! r \<noteq> y_true ! r) \<longrightarrow>
          sklearn_accuracy_score y_true y_pred = Inr (Float 0))"
proof -
  have v: "sklearn_accuracy_score y_true y_pred
           = Inr (Float (of_nat (card {r. r < length y_true \<and> y_pred ! r = y_true ! r})
                          / of_nat (length y_true)))"
    using assms same_shape_length [of y_true y_pred]
    by (simp add: sklearn_accuracy_score_def count_matching_rows)
  have one: "y_pred = y_true \<longrightarrow> card {r. r < length y_true \<and> y_pred ! r = y_true ! r} = length y_true"
    by auto
  have zero: "(\<forall>r<length y_true. y_pred ! r \<noteq> y_true ! r) \<longrightarrow>
      {r. r < length y_true \<and> y_pred ! r = y_true ! r} = {}"
    by auto
  from v one zero assms(2) show ?thesis
    by auto
qed

theorem accuracy_is_exact_match_rate_witness:
  "same_shape [[1, 0], [0, 1]] [[1, 0], [1, 1]] \<and> [[1, 0], [0, 1::rat]] \<noteq> []
   \<and> sklearn_accuracy_score [[1, 0], [0, 1]] [[1, 0], [1, 1]] = Inr (Float (1/2))
   \<and> sklearn_accuracy_score [[1, 0], [0, 1]] [[1, 0], [0, 1]] = Inr (Float 1)
   \<and> sklearn_accuracy_score [[1, 0], [0, 1]] [[0, 0], [0, 0]] = Inr (Float 0)"
  using accuracy_is_exact_match_rate [of "[[1, 0], [0, 1]]" "[[1, 0], [1, 1]]"]
    accuracy_is_exact_match_rate [of "[[1, 0], [0, 1]]" "[[1, 0], [0, 1]]"]
    accuracy_is_exact_match_rate [of "[[1, 0], [0, 1]]" "[[0, 0], [0, 0]]"]
  by (simp add: sklearn_accuracy_score_def same_shape_def)

text \<open>
  The claim as stated, for every pair of equal shape, fails for two matrices without
  rows: they are equal, and the accuracy is \<open>nan\<close>, not 1.
\<close>

theorem accuracy_zero_rows_counterexample:
  "same_shape [] [] \<and> sklearn_accuracy_score [] [] = Inr NaN
   \<and> sklearn_accuracy_score [] [] \<noteq> Inr (Float 1)"
  by (simp add: sklearn_accuracy_score_def same_shape_def)

section \<open>The one-vs-rest decomposition\<close>

text \<open>
  Claim C8. Training decomposes one-vs-rest. Whenever \<open>train_classifier\<close> returns, the
  ensemble has one estimator per column of the label matrix; estimator \<open>j\<close> is the
  per-label fit on the features and column \<open>j\<close> alone, from the one template that carries the
  given penalty and inverse regularization strength; and a training run on another label
  matrix with the same column \<open>j\<close> yields the same estimator \<open>j\<close>.
\<close>

theorem train_classifier_one_vs_rest:
  assumes "train_classifier lib X_train y_train penalty C = Inr clfs"
  shows "length clfs = length (columns y_train)
    \<and> (\<forall>j<length clfs.
         fit_binary lib \<lparr>lr_penalty = penalty, lr_C = C, lr_dual = False, lr_solver = ''liblinear''\<rparr>
             X_train (columns y_train ! j) = Inr (clfs ! j))
    \<and> (\<forall>y_train' clfs' j.
         train_classifier lib X_train y_train' penalty C = Inr clfs' \<longrightarrow>
         j < length clfs \<longrightarrow> j < length clfs' \<longrightarrow> columns y_train' ! j = columns y_train ! j \<longrightarrow>
         clfs' ! j = clfs ! j)"
proof -
  let ?est = "\<lparr>lr_penalty = penalty, lr_C = C, lr_dual = False, lr_solver = ''liblinear''\<rparr>"
  have fits: "length cs = length (columns Y) \<and>
      (\<forall>j<length cs. fit_binary lib ?est X_train (columns Y ! j) = Inr (cs ! j))"
    if "train_classifier lib X_train Y penalty C = Inr cs" for Y cs
  proof -
    from that have "collect (map (fit_binary lib ?est X_train) (columns Y)) = Inr cs"
      by (simp add: train_classifier_def ovr_fit_def)
    from collect_Inr [OF this] show ?thesis by simp
  qed
  have "clfs' ! j = clfs ! j"
    if t: "train_classifier lib X_train Y' penalty C = Inr clfs'"
      and j: "j < length clfs" "j < length clfs'"
      and c: "columns Y' ! j = columns y_train ! j" for Y' clfs' j
  proof -
    from fits [OF assms] j have "fit_binary lib ?est X_train (columns y_train ! j) = Inr (clfs ! j)"
      by simp
    moreover from fits [OF t] j have "fit_binary lib ?est X_train (columns Y' ! j) = Inr (clfs' ! j)"
      by simp
    ultimately show ?thesis using c by simp
  qed
  with fits [OF assms] show ?thesis by blast
qed

theorem train_classifier_one_vs_rest_witness:
  "train_classifier
       \<lparr>fit_binary = (\<lambda>est X col. Inr (est, col)),
        predict = (\<lambda>clfs X. Inl NotFittedError),
        decision_function = (\<lambda>clfs X. Inl NotFittedError)\<rparr>
       [[1, 2], [3, 4], [5, 6::rat]] [[1, 0, 0], [0, 1, 1], [1, 0, 1]] ''l2'' 10
     = Inr [(\<lparr>lr_penalty = ''l2'', lr_C = 10, lr_dual = False, lr_solver = ''liblinear''\<rparr>, [1, 0, 1]),
            (\<lparr>lr_penalty = ''l2'', lr_C = 10, lr_dual = False, lr_solver = ''liblinear''\<rparr>, [0, 1, 0]),
            (\<lparr>lr_penalty = ''l2'', lr_C = 10, lr_dual = False, lr_solver = ''liblinear''\<rparr>, [0, 1, 1])]
   \<and> length (columns [[1, 0, 0], [0, 1, 1], [1, 0, 1::rat]]) = 3"
proof -
  have t: "train_classifier
       \<lparr>fit_binary = (\<lambda>est X col. Inr (est, col)),
        predict = (\<lambda>clfs X. Inl NotFittedError),
        decision_function = (\<lambda>clfs X. Inl NotFittedError)\<rparr>
       [[1, 2], [3, 4], [5, 6::rat]] [[1, 0, 0], [0, 1, 1], [1, 0, 1]] ''l2'' 10
     = Inr [(\<lparr>lr_penalty = ''l2'', lr_C = 10, lr_dual = False, lr_solver = ''liblinear''\<rparr>, [1, 0, 1]),
            (\<lparr>lr_penalty = ''l2'', lr_C = 10, lr_dual = False, lr_solver = ''liblinear''\<rparr>, [0, 1, 0]),
            (\<lparr>lr_penalty = ''l2'', lr_C = 10, lr_dual = False, lr_solver = ''liblinear''\<rparr>, [0, 1, 1])]"
    by (simp add: train_classifier_def ovr_fit_def columns_def upt_rec Let_def)
  from train_classifier_one_vs_rest [OF t] t show ?thesis by simp
qed

end
